theory Spec2Isabelle
  imports Main "HOL-Library.AList" "HOL-Library.Word"
begin

section \<open>Data model\<close>

text \<open>
  The handlers of \<^verbatim>\<open>function_app.py\<close> translate one HTTP request into calls on two
  external stores. A value parsed from a JSON body is a \<open>json\<close>; a Python \<open>dict\<close> is an
  association list in insertion order. Numbers are never inspected by the handlers, so
  integers stand for them.
\<close>

datatype json =
    JNull
  | JBool bool
  | JNum int
  | JStr string
  | JArr "json list"
  | JObj "(string \<times> json) list"

type_synonym document = "(string \<times> json) list"

type_synonym bytes = "8 word list"

text \<open>
  The exceptions that can reach a handler's \<^verbatim>\<open>except\<close> clause. \<open>ValueError\<close>, \<open>TypeError\<close>,
  \<open>AttributeError\<close> and \<open>KeyError\<close> are Python's own; \<open>CosmosResourceNotFoundError\<close> and
  \<open>CosmosResourceExistsError\<close> are the document store's answers for a missing and for a
  duplicate key; \<open>ResourceNotFoundError\<close> is the blob store's answer for a missing blob (it is
  not a subclass of the document store's error); \<open>StoreFailure\<close> is any other exception of
  either store, with its text.
\<close>

datatype exn =
    ValueError
  | TypeError
  | AttributeError
  | KeyError
  | CosmosResourceNotFoundError
  | CosmosResourceExistsError
  | ResourceNotFoundError
  | StoreFailure string

text \<open>The body of a response: nothing, a fixed text, \<^verbatim>\<open>str(e)\<close>, or \<^verbatim>\<open>json.dumps\<close> of a value.\<close>

datatype body = Empty | Text string | ErrorText exn | Json json

record http_response =
  status_code :: nat
  body :: body
  mimetype :: string

text \<open>A handler either returns a response or lets an exception escape.\<close>

datatype outcome = Returns http_response | Raises exn

text \<open>
  \<open>route_id\<close> is \<^verbatim>\<open>req.route_params.get("id")\<close> (the routes with \<^verbatim>\<open>{id}\<close> always bind it),
  \<open>raw_body\<close> is \<^verbatim>\<open>req.get_body()\<close>, and \<open>json_body\<close> is what \<^verbatim>\<open>req.get_json()\<close> parses:
  \<open>None\<close> when the body is not valid JSON. \<open>headers\<close> is \<^verbatim>\<open>req.headers\<close>, which keeps every
  header name in lower case and lowers the name it is asked for.
\<close>

record http_request =
  route_id :: string
  headers :: "(string \<times> string) list"
  raw_body :: bytes
  json_body :: "json option"

record blob =
  content :: bytes
  content_type :: string

text \<open>Every call a handler makes on a store client, with its arguments.\<close>

datatype store_call =
    CreateItem document
  | ReadItem string
  | ReadAllItems
  | ReplaceItem string document
  | DeleteItem string
  | UploadBlob string bytes string
  | DeleteBlob string

text \<open>
  The two stores, and the calls made on them so far (oldest first). The Asset Store maps
  an id to its document, the Blob Store a name to its object.
\<close>

record world =
  items :: "(string \<times> document) list"
  blobs :: "(string \<times> blob) list"
  calls :: "store_call list"

text \<open>
  What one invocation reads from outside the request: the text of \<^verbatim>\<open>uuid.uuid4()\<close>, the
  text of \<^verbatim>\<open>datetime.utcnow().isoformat()\<close>, the URL of the configured blob container, and
  for each store call whether it fails unexpectedly (with the error's text).
\<close>

record env =
  uuid4 :: string
  utcnow :: string
  container_url :: string
  fault :: "store_call \<Rightarrow> string option"

section \<open>Python operations on parsed JSON\<close>

fun startswith :: "string \<Rightarrow> string \<Rightarrow> bool" where
  "startswith s [] = True"
| "startswith [] (p # ps) = False"
| "startswith (c # cs) (p # ps) = (c = p \<and> startswith cs ps)"

fun substring :: "string \<Rightarrow> string \<Rightarrow> bool" where
  "substring p [] = (p = [])"
| "substring p (c # cs) = (startswith (c # cs) p \<or> substring p cs)"

text \<open>\<^verbatim>\<open>k in data\<close>: a key of a dict, an element of a list, a substring of a string.\<close>

fun py_in :: "string \<Rightarrow> json \<Rightarrow> exn + bool" where
  "py_in k (JObj d) = Inr (map_of d k \<noteq> None)"
| "py_in k (JArr xs) = Inr (JStr k \<in> set xs)"
| "py_in k (JStr s) = Inr (substring k s)"
| "py_in k JNull = Inl TypeError"
| "py_in k (JBool b) = Inl TypeError"
| "py_in k (JNum n) = Inl TypeError"

text \<open>\<^verbatim>\<open>data[k]\<close> with a string \<open>k\<close>.\<close>

fun py_getitem :: "json \<Rightarrow> string \<Rightarrow> exn + json" where
  "py_getitem (JObj d) k = (case map_of d k of None \<Rightarrow> Inl KeyError | Some v \<Rightarrow> Inr v)"
| "py_getitem (JArr xs) k = Inl TypeError"
| "py_getitem (JStr s) k = Inl TypeError"
| "py_getitem JNull k = Inl TypeError"
| "py_getitem (JBool b) k = Inl TypeError"
| "py_getitem (JNum n) k = Inl TypeError"

text \<open>\<^verbatim>\<open>data.get(k, default)\<close>: only a dict has the method.\<close>

fun py_get :: "json \<Rightarrow> string \<Rightarrow> json \<Rightarrow> exn + json" where
  "py_get (JObj d) k dflt = Inr (case map_of d k of None \<Rightarrow> dflt | Some v \<Rightarrow> v)"
| "py_get (JArr xs) k dflt = Inl AttributeError"
| "py_get (JStr s) k dflt = Inl AttributeError"
| "py_get JNull k dflt = Inl AttributeError"
| "py_get (JBool b) k dflt = Inl AttributeError"
| "py_get (JNum n) k dflt = Inl AttributeError"

text \<open>\<^verbatim>\<open>asset[k]\<close> on a document read from the store.\<close>

definition doc_getitem :: "document \<Rightarrow> string \<Rightarrow> exn + json" where
  "doc_getitem d k = (case map_of d k of None \<Rightarrow> Inl KeyError | Some v \<Rightarrow> Inr v)"

text \<open>\<^verbatim>\<open>s.split(c)\<close> for a one-character separator: never empty.\<close>

fun split :: "char \<Rightarrow> string \<Rightarrow> string list" where
  "split c [] = [[]]"
| "split c (x # xs) =
     (if x = c then [] # split c xs
      else (case split c xs of [] \<Rightarrow> [[x]] | y # ys \<Rightarrow> (x # y) # ys))"

text \<open>\<^verbatim>\<open>asset["blobUrl"].split("/")[-1]\<close>: only a string has \<^verbatim>\<open>split\<close>.\<close>

fun blob_name_of :: "json \<Rightarrow> exn + string" where
  "blob_name_of (JStr s) = Inr (last (split CHR ''/'' s))"
| "blob_name_of (JObj d) = Inl AttributeError"
| "blob_name_of (JArr xs) = Inl AttributeError"
| "blob_name_of JNull = Inl AttributeError"
| "blob_name_of (JBool b) = Inl AttributeError"
| "blob_name_of (JNum n) = Inl AttributeError"

definition get_json :: "http_request \<Rightarrow> exn + json" where
  "get_json req = (case json_body req of None \<Rightarrow> Inl ValueError | Some j \<Rightarrow> Inr j)"

section \<open>The store clients\<close>

text \<open>
  The clients are external: each call is recorded, fails with \<open>StoreFailure\<close> when the
  environment says so (leaving the store as it was), and otherwise acts on the store as a
  keyed collection, with the client's own error for a missing or duplicate key.
\<close>

definition record_call :: "store_call \<Rightarrow> world \<Rightarrow> world" where
  "record_call c w = w\<lparr>calls := calls w @ [c]\<rparr>"

definition create_item :: "env \<Rightarrow> document \<Rightarrow> world \<Rightarrow> (exn + unit) \<times> world" where
  "create_item e doc w =
     (let w1 = record_call (CreateItem doc) w in
      case fault e (CreateItem doc) of
        Some m \<Rightarrow> (Inl (StoreFailure m), w1)
      | None \<Rightarrow>
          (case map_of doc ''id'' of
             Some (JStr k) \<Rightarrow>
               (if map_of (items w) k \<noteq> None then (Inl CosmosResourceExistsError, w1)
                else (Inr (), w1\<lparr>items := items w @ [(k, doc)]\<rparr>))
           | _ \<Rightarrow> (Inl (StoreFailure ''id''), w1)))"

definition read_item :: "env \<Rightarrow> string \<Rightarrow> world \<Rightarrow> (exn + document) \<times> world" where
  "read_item e k w =
     (let w1 = record_call (ReadItem k) w in
      case fault e (ReadItem k) of
        Some m \<Rightarrow> (Inl (StoreFailure m), w1)
      | None \<Rightarrow>
          (case map_of (items w) k of
             None \<Rightarrow> (Inl CosmosResourceNotFoundError, w1)
           | Some doc \<Rightarrow> (Inr doc, w1)))"

definition read_all_items :: "env \<Rightarrow> world \<Rightarrow> (exn + document list) \<times> world" where
  "read_all_items e w =
     (let w1 = record_call ReadAllItems w in
      case fault e ReadAllItems of
        Some m \<Rightarrow> (Inl (StoreFailure m), w1)
      | None \<Rightarrow> (Inr (map snd (items w)), w1))"

definition replace_item :: "env \<Rightarrow> string \<Rightarrow> document \<Rightarrow> world \<Rightarrow> (exn + unit) \<times> world" where
  "replace_item e k doc w =
     (let w1 = record_call (ReplaceItem k doc) w in
      case fault e (ReplaceItem k doc) of
        Some m \<Rightarrow> (Inl (StoreFailure m), w1)
      | None \<Rightarrow>
          (if map_of (items w) k = None then (Inl CosmosResourceNotFoundError, w1)
           else (Inr (), w1\<lparr>items := AList.update k doc (items w)\<rparr>)))"

definition delete_item :: "env \<Rightarrow> string \<Rightarrow> world \<Rightarrow> (exn + unit) \<times> world" where
  "delete_item e k w =
     (let w1 = record_call (DeleteItem k) w in
      case fault e (DeleteItem k) of
        Some m \<Rightarrow> (Inl (StoreFailure m), w1)
      | None \<Rightarrow>
          (if map_of (items w) k = None then (Inl CosmosResourceNotFoundError, w1)
           else (Inr (), w1\<lparr>items := AList.delete k (items w)\<rparr>)))"

text \<open>\<^verbatim>\<open>upload_blob(..., overwrite=True)\<close> replaces an object of the same name.\<close>

definition upload_blob :: "env \<Rightarrow> string \<Rightarrow> bytes \<Rightarrow> string \<Rightarrow> world \<Rightarrow> (exn + unit) \<times> world" where
  "upload_blob e name bs ct w =
     (let w1 = record_call (UploadBlob name bs ct) w in
      case fault e (UploadBlob name bs ct) of
        Some m \<Rightarrow> (Inl (StoreFailure m), w1)
      | None \<Rightarrow>
          (Inr (), w1\<lparr>blobs := AList.update name \<lparr>content = bs, content_type = ct\<rparr> (blobs w)\<rparr>))"

text \<open>
  \<^verbatim>\<open>delete_blob(name)\<close>. Blob names are taken to be non-empty: the client refuses an empty
  name before it sends anything, which is not told apart here from a name with no blob.
\<close>

definition delete_blob :: "env \<Rightarrow> string \<Rightarrow> world \<Rightarrow> (exn + unit) \<times> world" where
  "delete_blob e name w =
     (let w1 = record_call (DeleteBlob name) w in
      case fault e (DeleteBlob name) of
        Some m \<Rightarrow> (Inl (StoreFailure m), w1)
      | None \<Rightarrow>
          (if map_of (blobs w) name = None then (Inl ResourceNotFoundError, w1)
           else (Inr (), w1\<lparr>blobs := AList.delete name (blobs w)\<rparr>)))"

text \<open>\<^verbatim>\<open>blob_client.url\<close> of the blob \<open>name\<close> in the configured container.\<close>

definition blob_url :: "env \<Rightarrow> string \<Rightarrow> string" where
  "blob_url e name = container_url e @ ''/'' @ name"

section \<open>The handlers\<close>

definition response :: "nat \<Rightarrow> body \<Rightarrow> string \<Rightarrow> http_response" where
  "response st b mt = \<lparr>status_code = st, body = b, mimetype = mt\<rparr>"

text \<open>\<^verbatim>\<open>except Exception as e: return func.HttpResponse(str(e), status_code=500)\<close>\<close>

definition internal_error :: "exn \<Rightarrow> outcome" where
  "internal_error x = Returns (response 500 (ErrorText x) ''text/plain'')"

text \<open>\<^verbatim>\<open>except exceptions.CosmosResourceNotFoundError\<close>: every other exception escapes.\<close>

definition not_found_or_raise :: "exn \<Rightarrow> outcome" where
  "not_found_or_raise x =
     (if x = CosmosResourceNotFoundError
      then Returns (response 404 (Text ''Asset not found'') ''text/plain'')
      else Raises x)"

text \<open>
  The dict literal of \<^verbatim>\<open>create_asset\<close>, its entries evaluated in order: the first one
  that raises ends the evaluation.
\<close>

definition new_asset :: "env \<Rightarrow> json \<Rightarrow> exn + document" where
  "new_asset e data =
     (case py_getitem data ''title'' of
        Inl x \<Rightarrow> Inl x
      | Inr title \<Rightarrow>
          (case py_get data ''description'' (JStr '''') of
             Inl x \<Rightarrow> Inl x
           | Inr description \<Rightarrow>
               (case py_getitem data ''blobUrl'' of
                  Inl x \<Rightarrow> Inl x
                | Inr blobUrl \<Rightarrow>
                    Inr [(''id'', JStr (uuid4 e)),
                         (''title'', title),
                         (''description'', description),
                         (''blobUrl'', blobUrl),
                         (''created_at'', JStr (utcnow e))])))"

text \<open>\<^verbatim>\<open>"title" not in data or "blobUrl" not in data\<close>, the second test only after the first.\<close>

definition missing_required :: "json \<Rightarrow> exn + bool" where
  "missing_required data =
     (case py_in ''title'' data of
        Inl x \<Rightarrow> Inl x
      | Inr has_title \<Rightarrow>
          (if \<not> has_title then Inr True
           else (case py_in ''blobUrl'' data of
                   Inl x \<Rightarrow> Inl x
                 | Inr has_url \<Rightarrow> Inr (\<not> has_url))))"

definition create_asset :: "env \<Rightarrow> http_request \<Rightarrow> world \<Rightarrow> outcome \<times> world" where
  "create_asset e req w =
     (case get_json req of
        Inl x \<Rightarrow> (internal_error x, w)
      | Inr data \<Rightarrow>
          (case missing_required data of
             Inl x \<Rightarrow> (internal_error x, w)
           | Inr True \<Rightarrow>
               (Returns (response 400 (Text ''title and blobUrl are required'') ''text/plain''), w)
           | Inr False \<Rightarrow>
               (case new_asset e data of
                  Inl x \<Rightarrow> (internal_error x, w)
                | Inr asset \<Rightarrow>
                    (case create_item e asset w of
                       (Inl x, w1) \<Rightarrow> (internal_error x, w1)
                     | (Inr u, w1) \<Rightarrow>
                         (Returns (response 201 (Json (JObj asset)) ''application/json''), w1)))))"

definition get_asset :: "env \<Rightarrow> http_request \<Rightarrow> world \<Rightarrow> outcome \<times> world" where
  "get_asset e req w =
     (let asset_id = route_id req in
      case read_item e asset_id w of
        (Inl x, w1) \<Rightarrow> (not_found_or_raise x, w1)
      | (Inr asset, w1) \<Rightarrow>
          (Returns (response 200 (Json (JObj asset)) ''application/json''), w1))"

definition list_assets :: "env \<Rightarrow> http_request \<Rightarrow> world \<Rightarrow> outcome \<times> world" where
  "list_assets e req w =
     (case read_all_items e w of
        (Inl x, w1) \<Rightarrow> (internal_error x, w1)
      | (Inr its, w1) \<Rightarrow>
          (Returns (response 200 (Json (JArr (map JObj its))) ''application/json''), w1))"

text \<open>
  \<^verbatim>\<open>asset[k] = data.get(k, asset[k])\<close>: the method is looked up first, then the default is
  read from the stored document, then the entry is assigned in place.
\<close>

definition merge_field :: "string \<Rightarrow> json \<Rightarrow> document \<Rightarrow> exn + document" where
  "merge_field k data asset =
     (case data of
        JObj d \<Rightarrow>
          (case doc_getitem asset k of
             Inl x \<Rightarrow> Inl x
           | Inr old \<Rightarrow> Inr (AList.update k (case map_of d k of None \<Rightarrow> old | Some v \<Rightarrow> v) asset))
      | _ \<Rightarrow> Inl AttributeError)"

definition merged_asset :: "env \<Rightarrow> json \<Rightarrow> document \<Rightarrow> exn + document" where
  "merged_asset e data asset =
     (case merge_field ''title'' data asset of
        Inl x \<Rightarrow> Inl x
      | Inr a1 \<Rightarrow>
          (case merge_field ''description'' data a1 of
             Inl x \<Rightarrow> Inl x
           | Inr a2 \<Rightarrow>
               (case merge_field ''blobUrl'' data a2 of
                  Inl x \<Rightarrow> Inl x
                | Inr a3 \<Rightarrow> Inr (AList.update ''updated_at'' (JStr (utcnow e)) a3))))"

definition update_asset :: "env \<Rightarrow> http_request \<Rightarrow> world \<Rightarrow> outcome \<times> world" where
  "update_asset e req w =
     (let asset_id = route_id req in
      case get_json req of
        Inl x \<Rightarrow> (not_found_or_raise x, w)
      | Inr data \<Rightarrow>
          (case read_item e asset_id w of
             (Inl x, w1) \<Rightarrow> (not_found_or_raise x, w1)
           | (Inr asset, w1) \<Rightarrow>
               (case merged_asset e data asset of
                  Inl x \<Rightarrow> (not_found_or_raise x, w1)
                | Inr asset' \<Rightarrow>
                    (case replace_item e asset_id asset' w1 of
                       (Inl x, w2) \<Rightarrow> (not_found_or_raise x, w2)
                     | (Inr u, w2) \<Rightarrow>
                         (Returns (response 200 (Json (JObj asset')) ''application/json''), w2)))))"

definition delete_asset :: "env \<Rightarrow> http_request \<Rightarrow> world \<Rightarrow> outcome \<times> world" where
  "delete_asset e req w =
     (let asset_id = route_id req in
      case read_item e asset_id w of
        (Inl x, w1) \<Rightarrow> (not_found_or_raise x, w1)
      | (Inr asset, w1) \<Rightarrow>
          (case doc_getitem asset ''blobUrl'' of
             Inl x \<Rightarrow> (not_found_or_raise x, w1)
           | Inr url \<Rightarrow>
               (case blob_name_of url of
                  Inl x \<Rightarrow> (not_found_or_raise x, w1)
                | Inr blob_name \<Rightarrow>
                    (case delete_blob e blob_name w1 of
                       (Inl x, w2) \<Rightarrow> (not_found_or_raise x, w2)
                     | (Inr u, w2) \<Rightarrow>
                         (case delete_item e asset_id w2 of
                            (Inl x, w3) \<Rightarrow> (not_found_or_raise x, w3)
                          | (Inr u', w3) \<Rightarrow>
                              (Returns (response 204 Empty ''text/plain''), w3))))))"

text \<open>
  \<^verbatim>\<open>req.headers.get("Content-Type", "application/octet-stream")\<close>: the lookup ignores case,
  so it finds the entry kept under the lowered name.
\<close>

definition header_content_type :: "http_request \<Rightarrow> string" where
  "header_content_type req =
     (case map_of (headers req) ''content-type'' of
        None \<Rightarrow> ''application/octet-stream''
      | Some v \<Rightarrow> v)"

definition upload_file :: "env \<Rightarrow> http_request \<Rightarrow> world \<Rightarrow> outcome \<times> world" where
  "upload_file e req w =
     (let file_bytes = raw_body req in
      if file_bytes = [] then (Returns (response 400 (Text ''Empty file'') ''text/plain''), w)
      else
        (let filename = uuid4 e @ ''.bin'' in
         case upload_blob e filename file_bytes (header_content_type req) w of
           (Inl x, w1) \<Rightarrow> (internal_error x, w1)
         | (Inr u, w1) \<Rightarrow>
             (Returns (response 201
                 (Json (JObj [(''filename'', JStr filename), (''url'', JStr (blob_url e filename))]))
                 ''application/json''), w1)))"

section \<open>Sample inputs\<close>

text \<open>Concrete environments, worlds and requests on which the theorems below are run.\<close>

definition quiet :: "store_call \<Rightarrow> string option" where
  "quiet c = None"

definition demo_env :: env where
  "demo_env = \<lparr>uuid4 = ''0b7e'', utcnow = ''2024-05-01T12:00:00'',
                container_url = ''https://h/uploads'', fault = quiet\<rparr>"

definition later_env :: env where
  "later_env = \<lparr>uuid4 = ''91c4'', utcnow = ''2024-05-02T08:30:00'',
                container_url = ''https://h/uploads'', fault = quiet\<rparr>"

definition empty_world :: world where
  "empty_world = \<lparr>items = [], blobs = [], calls = []\<rparr>"

definition json_request :: "string \<Rightarrow> json option \<Rightarrow> http_request" where
  "json_request i j = \<lparr>route_id = i, headers = [], raw_body = [], json_body = j\<rparr>"

definition bytes_request :: "(string \<times> string) list \<Rightarrow> bytes \<Rightarrow> http_request" where
  "bytes_request hs bs = \<lparr>route_id = [], headers = hs, raw_body = bs, json_body = None\<rparr>"

definition photo_body :: document where
  "photo_body = [(''title'', JStr ''Photo''), (''blobUrl'', JStr ''https://h/uploads/77aa.bin'')]"

text \<open>A body that also carries the server's fields and one the data model does not know.\<close>

definition forged_body :: document where
  "forged_body = [(''id'', JStr ''mine''), (''title'', JStr ''Photo''),
                  (''blobUrl'', JStr ''https://h/uploads/77aa.bin''),
                  (''created_at'', JStr ''1999''), (''updated_at'', JStr ''1999''),
                  (''owner'', JStr ''root'')]"

definition stored_photo :: document where
  "stored_photo = [(''id'', JStr ''0b7e''), (''title'', JStr ''Photo''), (''description'', JStr []),
                   (''blobUrl'', JStr ''https://h/uploads/77aa.bin''),
                   (''created_at'', JStr ''2024-05-01T12:00:00'')]"

definition retitled_photo :: document where
  "retitled_photo = [(''id'', JStr ''0b7e''), (''title'', JStr ''Sunset''), (''description'', JStr []),
                     (''blobUrl'', JStr ''https://h/uploads/77aa.bin''),
                     (''created_at'', JStr ''2024-05-01T12:00:00''),
                     (''updated_at'', JStr ''2024-05-02T08:30:00'')]"

text \<open>A body whose \<open>blobUrl\<close> is a number, and the record create makes of it.\<close>

definition numbered_body :: document where
  "numbered_body = [(''title'', JStr ''Photo''), (''blobUrl'', JNum 5)]"

definition stored_numbered :: document where
  "stored_numbered = [(''id'', JStr ''0b7e''), (''title'', JStr ''Photo''),
                      (''description'', JStr []), (''blobUrl'', JNum 5),
                      (''created_at'', JStr ''2024-05-01T12:00:00'')]"

text \<open>One asset whose blob is in the Blob Store.\<close>

definition photo_world :: world where
  "photo_world = \<lparr>items = [(''0b7e'', stored_photo)],
                   blobs = [(''77aa.bin'', \<lparr>content = [104, 105], content_type = ''text/plain''\<rparr>)],
                   calls = []\<rparr>"

text \<open>An environment in which every blob deletion fails.\<close>

definition blob_outage :: "store_call \<Rightarrow> string option" where
  "blob_outage c = (case c of DeleteBlob n \<Rightarrow> Some ''timeout'' | _ \<Rightarrow> None)"

definition outage_env :: env where
  "outage_env = \<lparr>uuid4 = ''5d21'', utcnow = ''2024-05-03T09:00:00'',
                  container_url = ''https://h/uploads'', fault = blob_outage\<rparr>"

text \<open>An environment in which the Asset Store refuses every create call.\<close>

definition store_outage :: "store_call \<Rightarrow> string option" where
  "store_outage c = (case c of CreateItem d \<Rightarrow> Some ''unavailable'' | _ \<Rightarrow> None)"

definition down_env :: env where
  "down_env = \<lparr>uuid4 = ''c3d9'', utcnow = ''2024-05-04T10:00:00'',
                container_url = ''https://h/uploads'', fault = store_outage\<rparr>"

text \<open>The HTTP status a caller of the handler sees: none when an exception escapes.\<close>

definition status_of :: "outcome \<Rightarrow> nat option" where
  "status_of out = (case out of Returns r \<Rightarrow> Some (status_code r) | Raises x \<Rightarrow> None)"

section \<open>Splitting a URL\<close>

lemma split_nonempty: "split c s \<noteq> []"
  by (induction s) (auto split: list.splits)

lemma split_no_sep: "c \<notin> set s \<Longrightarrow> split c s = [s]"
  by (induction s) auto

lemma split_two: "c \<in> set s \<Longrightarrow> \<exists>y z zs. split c s = y # z # zs"
proof (induction s)
  case Nil
  then show ?case by simp
next
  case (Cons x xs)
  show ?case
  proof (cases "x = c")
    case True
    then show ?thesis
      using split_nonempty [of c xs] by (cases "split c xs") auto
  next
    case False
    with Cons show ?thesis by auto
  qed
qed

lemma last_split_after_sep: "last (split c (a @ c # b)) = last (split c b)"
proof (induction a)
  case Nil
  then show ?case using split_nonempty [of c b] by simp
next
  case (Cons x a)
  show ?case
  proof (cases "x = c")
    case True
    then show ?thesis
      using Cons split_nonempty [of c "a @ c # b"] by simp
  next
    case False
    obtain y z zs where "split c (a @ c # b) = y # z # zs"
      using split_two [of c "a @ c # b"] by auto
    then show ?thesis using Cons False by simp
  qed
qed

text \<open>
  The last piece of a split is the final segment: it holds no separator, and the string
  is either that piece alone or ends with a separator followed by it.
\<close>

lemma last_split_final_segment:
  "c \<notin> set (last (split c s)) \<and>
   (s = last (split c s) \<or> (\<exists>a. s = a @ c # last (split c s)))"
proof (cases "c \<in> set s")
  case False
  then show ?thesis by (simp add: split_no_sep)
next
  case True
  then obtain a b where ab: "s = a @ c # b" "c \<notin> set b"
    using split_list_last [of c s] by blast
  then have b: "last (split c s) = b"
    by (simp add: last_split_after_sep split_no_sep)
  have "c \<notin> set (last (split c s))" using b ab(2) by simp
  moreover have "\<exists>a. s = a @ c # last (split c s)" using b ab(1) by auto
  ultimately show ?thesis by simp
qed

section \<open>Create: validation\<close>

text \<open>
  C4. A create request whose JSON object lacks the key \<open>title\<close> or lacks the key \<open>blobUrl\<close>
  is answered with HTTP 400, whatever else the object holds, and no store is touched.
\<close>

theorem create_asset_missing_field:
  assumes "json_body req = Some (JObj d)"
      and "map_of d ''title'' = None \<or> map_of d ''blobUrl'' = None"
  shows "create_asset e req w =
           (Returns (response 400 (Text ''title and blobUrl are required'') ''text/plain''), w)"
  using assms by (auto simp: create_asset_def get_json_def missing_required_def)

theorem create_asset_missing_field_witness:
  "create_asset demo_env
     (json_request []
        (Some (JObj [(''title'', JStr ''Photo''), (''description'', JStr ''d''),
                     (''id'', JStr ''x'')])))
     empty_world =
   (Returns (response 400 (Text ''title and blobUrl are required'') ''text/plain''),
    empty_world)"
  using create_asset_missing_field
    [of "json_request []
           (Some (JObj [(''title'', JStr ''Photo''), (''description'', JStr ''d''),
                        (''id'', JStr ''x'')]))"
        "[(''title'', JStr ''Photo''), (''description'', JStr ''d''), (''id'', JStr ''x'')]"
        demo_env empty_world]
  by (simp add: json_request_def)

section \<open>Bodies that are not JSON\<close>

text \<open>
  C5, as stated, fails: a create request whose body is not valid JSON is answered with
  HTTP 500, and an update request with such a body gets no response from the handler at
  all, because the \<open>ValueError\<close> escapes it.
\<close>

theorem malformed_body_counterexample:
  "status_of (fst (create_asset demo_env (json_request ''a1'' None) empty_world)) = Some 500
   \<and> status_of (fst (update_asset demo_env (json_request ''a1'' None) empty_world)) = None"
  by (simp add: status_of_def create_asset_def update_asset_def get_json_def json_request_def
      internal_error_def not_found_or_raise_def response_def)

text \<open>
  C5, amended. For every request whose body is not valid JSON, create returns HTTP 500
  with the error's text as body and update lets the \<open>ValueError\<close> escape unmapped; neither
  touches a store.
\<close>

theorem malformed_body_not_400:
  assumes "json_body req = None"
  shows "create_asset e req w = (Returns (response 500 (ErrorText ValueError) ''text/plain''), w)
       \<and> update_asset e req w = (Raises ValueError, w)"
  using assms
  by (simp add: create_asset_def update_asset_def get_json_def internal_error_def
      not_found_or_raise_def)

theorem malformed_body_not_400_witness:
  "create_asset demo_env (json_request ''a1'' None) empty_world =
     (Returns (response 500 (ErrorText ValueError) ''text/plain''), empty_world)
   \<and> update_asset demo_env (json_request ''a1'' None) empty_world =
     (Raises ValueError, empty_world)"
  using malformed_body_not_400 [of "json_request ''a1'' None" demo_env empty_world]
  by (simp add: json_request_def)

section \<open>Create: the stored record\<close>

lemma new_asset_object:
  assumes "new_asset e data = Inr asset"
  shows "\<exists>d t b. data = JObj d \<and> map_of d ''title'' = Some t \<and> map_of d ''blobUrl'' = Some b
           \<and> asset = [(''id'', JStr (uuid4 e)), (''title'', t),
                (''description'', case map_of d ''description'' of None \<Rightarrow> JStr [] | Some v \<Rightarrow> v),
                (''blobUrl'', b), (''created_at'', JStr (utcnow e))]"
proof (cases data)
  case (JObj d)
  with assms show ?thesis
    by (auto simp: new_asset_def split: option.splits)
qed (use assms in \<open>simp_all add: new_asset_def\<close>)

lemma create_item_cases:
  "create_item e doc w = (r, w') \<Longrightarrow>
     calls w' = calls w @ [CreateItem doc] \<and> blobs w' = blobs w \<and>
     (case r of
        Inl x \<Rightarrow> items w' = items w
      | Inr u \<Rightarrow> (\<exists>k. map_of doc ''id'' = Some (JStr k) \<and> map_of (items w) k = None
                      \<and> items w' = items w @ [(k, doc)]))"
  by (auto simp: create_item_def record_call_def Let_def split: option.splits json.splits if_splits)

text \<open>Either create leaves the world alone without answering 201, or it went through \<open>create_item\<close>.\<close>

lemma create_asset_cases:
  "create_asset e req w = (out, w') \<Longrightarrow>
     (w' = w \<and> (\<forall>r. out = Returns r \<longrightarrow> status_code r \<noteq> 201))
   \<or> (\<exists>asset r. new_asset e (the (json_body req)) = Inr asset
         \<and> create_item e asset w = (r, w')
         \<and> (case r of Inl x \<Rightarrow> out = internal_error x
             | Inr u \<Rightarrow> out = Returns (response 201 (Json (JObj asset)) ''application/json'')))"
  by (auto simp: create_asset_def get_json_def internal_error_def response_def
      split: option.splits sum.splits bool.splits prod.splits)

lemma create_asset_object:
  assumes "json_body req = Some (JObj d)"
      and "map_of d ''title'' = Some t" and "map_of d ''blobUrl'' = Some b"
  shows "create_asset e req w =
     (case create_item e
        [(''id'', JStr (uuid4 e)), (''title'', t),
         (''description'', case map_of d ''description'' of None \<Rightarrow> JStr [] | Some v \<Rightarrow> v),
         (''blobUrl'', b), (''created_at'', JStr (utcnow e))] w of
        (Inl x, w1) \<Rightarrow> (internal_error x, w1)
      | (Inr u, w1) \<Rightarrow>
          (Returns (response 201 (Json (JObj
             [(''id'', JStr (uuid4 e)), (''title'', t),
              (''description'', case map_of d ''description'' of None \<Rightarrow> JStr [] | Some v \<Rightarrow> v),
              (''blobUrl'', b), (''created_at'', JStr (utcnow e))])) ''application/json''), w1))"
  using assms
  by (simp add: create_asset_def get_json_def missing_required_def new_asset_def)

text \<open>
  C6, as stated, fails: the handler never checks the generated id. When \<open>uuid4\<close> yields an
  id that is already a key of the Asset Store, the store refuses the duplicate, and when
  the store's create call fails, the error is caught; either way a request holding \<open>title\<close>
  and \<open>blobUrl\<close> is answered with HTTP 500 and nothing is stored.
\<close>

theorem create_asset_counterexample:
  "map_of photo_body ''title'' \<noteq> None \<and> map_of photo_body ''blobUrl'' \<noteq> None
   \<and> create_asset demo_env (json_request [] (Some (JObj photo_body))) photo_world =
     (Returns (response 500 (ErrorText CosmosResourceExistsError) ''text/plain''),
      photo_world\<lparr>calls := [CreateItem stored_photo]\<rparr>)
   \<and> fst (create_asset down_env (json_request [] (Some (JObj photo_body))) empty_world) =
     Returns (response 500 (ErrorText (StoreFailure ''unavailable'')) ''text/plain'')
   \<and> items (snd (create_asset down_env (json_request [] (Some (JObj photo_body))) empty_world)) = []"
  by (simp add: create_asset_def get_json_def missing_required_def new_asset_def create_item_def
      record_call_def json_request_def photo_body_def empty_world_def demo_env_def quiet_def
      stored_photo_def photo_world_def down_env_def store_outage_def internal_error_def Let_def)

text \<open>
  C6, amended. For a create request whose JSON object holds \<open>title\<close> and \<open>blobUrl\<close>, the
  record built has as \<open>id\<close> the text of the uuid the server generated, as \<open>created_at\<close> the
  text of the current UTC time, as \<open>description\<close> the body's value or the empty string, and
  no \<open>updated_at\<close>. When that id is not yet a key of the Asset Store and the create call
  does not fail, the record is appended to the store and returned with HTTP 201. When the
  id is already a key, or the create call fails, the answer is HTTP 500 and the Asset
  Store is unchanged. So a record answered with 201 has an id no stored record had, and
  ids that were pairwise distinct stay so.
\<close>

theorem create_asset_record:
  assumes "json_body req = Some (JObj d)"
      and "map_of d ''title'' = Some t"
      and "map_of d ''blobUrl'' = Some b"
      and "asset = [(''id'', JStr (uuid4 e)), (''title'', t),
                    (''description'', case map_of d ''description'' of None \<Rightarrow> JStr [] | Some v \<Rightarrow> v),
                    (''blobUrl'', b), (''created_at'', JStr (utcnow e))]"
  shows "(map_of (items w) (uuid4 e) = None \<and> fault e (CreateItem asset) = None \<longrightarrow>
            create_asset e req w =
              (Returns (response 201 (Json (JObj asset)) ''application/json''),
               w\<lparr>items := items w @ [(uuid4 e, asset)], calls := calls w @ [CreateItem asset]\<rparr>))
       \<and> (map_of (items w) (uuid4 e) \<noteq> None \<and> fault e (CreateItem asset) = None \<longrightarrow>
            create_asset e req w =
              (Returns (response 500 (ErrorText CosmosResourceExistsError) ''text/plain''),
               w\<lparr>calls := calls w @ [CreateItem asset]\<rparr>))
       \<and> (\<forall>m. fault e (CreateItem asset) = Some m \<longrightarrow>
            create_asset e req w =
              (Returns (response 500 (ErrorText (StoreFailure m)) ''text/plain''),
               w\<lparr>calls := calls w @ [CreateItem asset]\<rparr>))
       \<and> (\<forall>r. fst (create_asset e req w) = Returns r \<and> status_code r = 201 \<longrightarrow>
            map_of (items w) (uuid4 e) = None)
       \<and> (distinct (map fst (items w)) \<longrightarrow>
            distinct (map fst (items (snd (create_asset e req w)))))
       \<and> map_of asset ''updated_at'' = None"
proof -
  have c: "create_asset e req w =
     (case create_item e asset w of
        (Inl x, w1) \<Rightarrow> (internal_error x, w1)
      | (Inr u, w1) \<Rightarrow> (Returns (response 201 (Json (JObj asset)) ''application/json''), w1))"
    unfolding assms(4) by (rule create_asset_object [OF assms(1-3)])
  have id: "map_of asset ''id'' = Some (JStr (uuid4 e))"
    using assms(4) by simp
  have ok: "create_asset e req w =
              (Returns (response 201 (Json (JObj asset)) ''application/json''),
               w\<lparr>items := items w @ [(uuid4 e, asset)], calls := calls w @ [CreateItem asset]\<rparr>)"
    if "map_of (items w) (uuid4 e) = None" "fault e (CreateItem asset) = None"
    using that c id by (simp add: create_item_def record_call_def Let_def)
  have dup: "create_asset e req w =
              (Returns (response 500 (ErrorText CosmosResourceExistsError) ''text/plain''),
               w\<lparr>calls := calls w @ [CreateItem asset]\<rparr>)"
    if "map_of (items w) (uuid4 e) \<noteq> None" "fault e (CreateItem asset) = None"
    using that c id by (auto simp: create_item_def record_call_def Let_def internal_error_def)
  have down: "create_asset e req w =
              (Returns (response 500 (ErrorText (StoreFailure m)) ''text/plain''),
               w\<lparr>calls := calls w @ [CreateItem asset]\<rparr>)"
    if "fault e (CreateItem asset) = Some m" for m
    using that c by (simp add: create_item_def record_call_def Let_def internal_error_def)
  have fresh: "map_of (items w) (uuid4 e) = None"
    if "fst (create_asset e req w) = Returns r" "status_code r = 201" for r
  proof (cases "fault e (CreateItem asset)")
    case None
    show ?thesis
    proof (rule ccontr)
      assume "map_of (items w) (uuid4 e) \<noteq> None"
      from dup [OF this None] that show False by (auto simp: response_def)
    qed
  next
    case (Some m)
    from down [OF Some] that show ?thesis by (auto simp: response_def)
  qed
  have dist: "distinct (map fst (items (snd (create_asset e req w))))"
    if d: "distinct (map fst (items w))"
  proof (cases "fault e (CreateItem asset)")
    case None
    show ?thesis
    proof (cases "map_of (items w) (uuid4 e)")
      case n: None
      then have "uuid4 e \<notin> fst ` set (items w)" by (simp add: map_of_eq_None_iff)
      with d ok [OF n None] show ?thesis by simp
    next
      case (Some doc)
      then have "map_of (items w) (uuid4 e) \<noteq> None" by simp
      from dup [OF this None] d show ?thesis by simp
    qed
  next
    case (Some m)
    from down [OF Some] d show ?thesis by simp
  qed
  have "map_of asset ''updated_at'' = None" using assms(4) by simp
  with ok dup down fresh dist show ?thesis by blast
qed

theorem create_asset_record_witness:
  "create_asset demo_env (json_request [] (Some (JObj photo_body))) empty_world =
     (Returns (response 201 (Json (JObj stored_photo)) ''application/json''),
      \<lparr>items = [(''0b7e'', stored_photo)], blobs = [], calls = [CreateItem stored_photo]\<rparr>)
   \<and> create_asset demo_env (json_request [] (Some (JObj photo_body))) photo_world =
     (Returns (response 500 (ErrorText CosmosResourceExistsError) ''text/plain''),
      photo_world\<lparr>calls := [CreateItem stored_photo]\<rparr>)
   \<and> fst (create_asset down_env (json_request [] (Some (JObj photo_body))) empty_world) =
     Returns (response 500 (ErrorText (StoreFailure ''unavailable'')) ''text/plain'')"
proof -
  let ?req = "json_request [] (Some (JObj photo_body))"
  have h1: "json_body ?req = Some (JObj photo_body)" by (simp add: json_request_def)
  have h2: "map_of photo_body ''title'' = Some (JStr ''Photo'')"
    and h3: "map_of photo_body ''blobUrl'' = Some (JStr ''https://h/uploads/77aa.bin'')"
    by (simp_all add: photo_body_def)
  have a1: "stored_photo = [(''id'', JStr (uuid4 demo_env)), (''title'', JStr ''Photo''),
      (''description'', case map_of photo_body ''description'' of None \<Rightarrow> JStr [] | Some v \<Rightarrow> v),
      (''blobUrl'', JStr ''https://h/uploads/77aa.bin''), (''created_at'', JStr (utcnow demo_env))]"
    by (simp add: stored_photo_def photo_body_def demo_env_def)
  have f1: "map_of (items empty_world) (uuid4 demo_env) = None
            \<and> fault demo_env (CreateItem stored_photo) = None"
    by (simp add: empty_world_def demo_env_def quiet_def)
  have f2: "map_of (items photo_world) (uuid4 demo_env) \<noteq> None
            \<and> fault demo_env (CreateItem stored_photo) = None"
    by (simp add: photo_world_def demo_env_def quiet_def)
  have "create_asset demo_env ?req empty_world =
     (Returns (response 201 (Json (JObj stored_photo)) ''application/json''),
      empty_world\<lparr>items := items empty_world @ [(uuid4 demo_env, stored_photo)],
                 calls := calls empty_world @ [CreateItem stored_photo]\<rparr>)"
    using create_asset_record [where w = empty_world, OF h1 h2 h3 a1] f1 by blast
  moreover have "create_asset demo_env ?req photo_world =
     (Returns (response 500 (ErrorText CosmosResourceExistsError) ''text/plain''),
      photo_world\<lparr>calls := calls photo_world @ [CreateItem stored_photo]\<rparr>)"
    using create_asset_record [where w = photo_world, OF h1 h2 h3 a1] f2 by blast
  moreover have "fst (create_asset down_env ?req empty_world) =
     Returns (response 500 (ErrorText (StoreFailure ''unavailable'')) ''text/plain'')"
    using create_asset_record [where e = down_env and w = empty_world, OF h1 h2 h3 refl]
    by (simp add: down_env_def store_outage_def)
  ultimately show ?thesis
    by (simp add: empty_world_def photo_world_def demo_env_def)
qed

text \<open>
  C9. Whatever the request, create either leaves both stores as they were, or hands the
  Asset Store one document with exactly the fields \<open>id\<close>, \<open>title\<close>, \<open>description\<close>,
  \<open>blobUrl\<close>, \<open>created_at\<close>, in which \<open>id\<close> and \<open>created_at\<close> are the server's uuid and clock
  and the other three come from the body's keys of the same name. No other key of the
  body, and no \<open>id\<close>, \<open>created_at\<close> or \<open>updated_at\<close> the client sent, reaches the store.
\<close>

theorem create_asset_stores_five_fields:
  "snd (create_asset e req w) = w
   \<or> (\<exists>d t b asset.
         json_body req = Some (JObj d) \<and> map_of d ''title'' = Some t \<and> map_of d ''blobUrl'' = Some b
       \<and> asset = [(''id'', JStr (uuid4 e)), (''title'', t),
             (''description'', case map_of d ''description'' of None \<Rightarrow> JStr [] | Some v \<Rightarrow> v),
             (''blobUrl'', b), (''created_at'', JStr (utcnow e))]
       \<and> (snd (create_asset e req w) = w\<lparr>calls := calls w @ [CreateItem asset]\<rparr>
          \<or> snd (create_asset e req w) =
               w\<lparr>items := items w @ [(uuid4 e, asset)], calls := calls w @ [CreateItem asset]\<rparr>))"
proof (cases "json_body req")
  case None
  then show ?thesis by (simp add: create_asset_def get_json_def)
next
  case (Some data)
  show ?thesis
  proof (cases "missing_required data")
    case (Inl x)
    with Some show ?thesis by (simp add: create_asset_def get_json_def)
  next
    case (Inr m)
    show ?thesis
    proof (cases "m")
      case True
      with Some Inr show ?thesis by (simp add: create_asset_def get_json_def)
    next
      case False
      show ?thesis
      proof (cases "new_asset e data")
        case (Inl x)
        with Some Inr False show ?thesis by (simp add: create_asset_def get_json_def)
      next
        case na: (Inr asset)
        from new_asset_object [OF na] obtain d t b where
          d: "data = JObj d" "map_of d ''title'' = Some t" "map_of d ''blobUrl'' = Some b"
          "asset = [(''id'', JStr (uuid4 e)), (''title'', t),
                (''description'', case map_of d ''description'' of None \<Rightarrow> JStr [] | Some v \<Rightarrow> v),
                (''blobUrl'', b), (''created_at'', JStr (utcnow e))]"
          by blast
        have w': "snd (create_asset e req w) = snd (create_item e asset w)"
          using Some Inr False na
          by (simp add: create_asset_def get_json_def split: prod.splits sum.splits)
        have "snd (create_item e asset w) = w\<lparr>calls := calls w @ [CreateItem asset]\<rparr>
          \<or> snd (create_item e asset w) =
               w\<lparr>items := items w @ [(uuid4 e, asset)], calls := calls w @ [CreateItem asset]\<rparr>"
          using d(4) by (auto simp: create_item_def record_call_def Let_def split: option.splits)
        with w' d Some show ?thesis by auto
      qed
    qed
  qed
qed

theorem create_asset_stores_five_fields_witness:
  "snd (create_asset demo_env (json_request [] (Some (JObj forged_body))) empty_world) =
     \<lparr>items = [(''0b7e'', stored_photo)], blobs = [], calls = [CreateItem stored_photo]\<rparr>"
  using create_asset_stores_five_fields
    [of demo_env "json_request [] (Some (JObj forged_body))" empty_world]
  by (simp add: create_asset_def get_json_def missing_required_def new_asset_def create_item_def
      record_call_def json_request_def forged_body_def empty_world_def demo_env_def quiet_def
      stored_photo_def)

section \<open>Get after create\<close>

text \<open>
  C1. When create answers 201, its body is a record with an id, and a get with that id
  on the resulting stores (the read not failing) answers HTTP 200 with the same record as
  JSON: the same fields with the same values in the same order.
\<close>

theorem get_after_create:
  assumes "create_asset e req w = (Returns r, w')"
      and "status_code r = 201"
  shows "\<exists>asset k. r = response 201 (Json (JObj asset)) ''application/json''
           \<and> map_of asset ''id'' = Some (JStr k)
           \<and> (\<forall>e' req'. route_id req' = k \<and> fault e' (ReadItem k) = None \<longrightarrow>
                 get_asset e' req' w' =
                   (Returns (response 200 (Json (JObj asset)) ''application/json''),
                    record_call (ReadItem k) w'))"
proof -
  from create_asset_cases [OF assms(1)] assms(2)
  obtain asset res where a: "new_asset e (the (json_body req)) = Inr asset"
    and c: "create_item e asset w = (res, w')"
    and o: "case res of Inl x \<Rightarrow> Returns r = internal_error x
            | Inr u \<Rightarrow> Returns r = Returns (response 201 (Json (JObj asset)) ''application/json'')"
    by auto
  have res: "\<exists>u. res = Inr u"
    using o assms(2) by (cases res) (auto simp: internal_error_def response_def)
  then have r: "r = response 201 (Json (JObj asset)) ''application/json''"
    using o by auto
  from create_item_cases [OF c] res
  obtain k where k: "map_of asset ''id'' = Some (JStr k)" "map_of (items w) k = None"
    "items w' = items w @ [(k, asset)]"
    by auto
  have look: "map_of (items w') k = Some asset"
    using k by (simp add: map_add_def)
  have "get_asset e' req' w' =
          (Returns (response 200 (Json (JObj asset)) ''application/json''),
           record_call (ReadItem k) w')"
    if "route_id req' = k" "fault e' (ReadItem k) = None" for e' req'
    using that look by (simp add: get_asset_def read_item_def)
  with r k(1) show ?thesis by blast
qed

theorem get_after_create_witness:
  "get_asset later_env (json_request ''0b7e'' None)
     \<lparr>items = [(''0b7e'', stored_photo)], blobs = [], calls = [CreateItem stored_photo]\<rparr> =
   (Returns (response 200 (Json (JObj stored_photo)) ''application/json''),
    \<lparr>items = [(''0b7e'', stored_photo)], blobs = [],
     calls = [CreateItem stored_photo, ReadItem ''0b7e'']\<rparr>)"
proof -
  have c: "create_asset demo_env (json_request [] (Some (JObj photo_body))) empty_world =
     (Returns (response 201 (Json (JObj stored_photo)) ''application/json''),
      \<lparr>items = [(''0b7e'', stored_photo)], blobs = [], calls = [CreateItem stored_photo]\<rparr>)"
    by (simp add: create_asset_def get_json_def missing_required_def new_asset_def create_item_def
      record_call_def json_request_def photo_body_def empty_world_def demo_env_def quiet_def
      stored_photo_def)
  have s: "status_code (response 201 (Json (JObj stored_photo)) ''application/json'') = 201"
    by (simp add: response_def)
  from get_after_create [OF c s]
  show ?thesis
    by (auto simp: stored_photo_def json_request_def later_env_def quiet_def record_call_def
        response_def)
qed

section \<open>Upload\<close>

text \<open>
  C8. An upload with an empty body is answered with HTTP 400 and changes nothing. An
  upload with a non-empty body, the blob store not failing, is answered with HTTP 201 and
  a JSON object holding the filename, which is the generated uuid followed by \<open>.bin\<close>,
  and the URL of that object; the bytes are stored under that name.
\<close>

theorem upload_file_empty_or_stored:
  "(raw_body req = [] \<longrightarrow>
      upload_file e req w = (Returns (response 400 (Text ''Empty file'') ''text/plain''), w))
   \<and> (raw_body req \<noteq> []
        \<and> fault e (UploadBlob (uuid4 e @ ''.bin'') (raw_body req) (header_content_type req)) = None
      \<longrightarrow>
      upload_file e req w =
        (Returns (response 201
           (Json (JObj [(''filename'', JStr (uuid4 e @ ''.bin'')),
                        (''url'', JStr (blob_url e (uuid4 e @ ''.bin'')))]))
           ''application/json''),
         w\<lparr>blobs := AList.update (uuid4 e @ ''.bin'')
                      \<lparr>content = raw_body req, content_type = header_content_type req\<rparr> (blobs w),
           calls := calls w @
             [UploadBlob (uuid4 e @ ''.bin'') (raw_body req) (header_content_type req)]\<rparr>))"
  by (simp add: upload_file_def upload_blob_def record_call_def Let_def)

theorem upload_file_empty_or_stored_witness:
  "upload_file demo_env (bytes_request [] []) empty_world =
     (Returns (response 400 (Text ''Empty file'') ''text/plain''), empty_world)
   \<and> upload_file demo_env (bytes_request [(''content-type'', ''text/plain'')] [104, 105])
       empty_world =
     (Returns (response 201
        (Json (JObj [(''filename'', JStr ''0b7e.bin''),
                     (''url'', JStr ''https://h/uploads/0b7e.bin'')]))
        ''application/json''),
      \<lparr>items = [],
       blobs = [(''0b7e.bin'', \<lparr>content = [104, 105], content_type = ''text/plain''\<rparr>)],
       calls = [UploadBlob ''0b7e.bin'' [104, 105] ''text/plain'']\<rparr>)"
  using upload_file_empty_or_stored [of "bytes_request [] []" demo_env empty_world]
    upload_file_empty_or_stored
      [of "bytes_request [(''content-type'', ''text/plain'')] [104, 105]" demo_env empty_world]
  by (simp add: bytes_request_def demo_env_def quiet_def empty_world_def blob_url_def
      header_content_type_def)

section \<open>Update\<close>

lemma merge_field_map:
  assumes "map_of asset k = Some old"
  shows "\<exists>asset'. merge_field k (JObj d) asset = Inr asset'
           \<and> map_of asset' = (map_of asset)(k \<mapsto> (case map_of d k of None \<Rightarrow> old | Some v \<Rightarrow> v))"
  using assms by (simp add: merge_field_def doc_getitem_def update_conv')

lemma merged_asset_map:
  assumes "map_of asset ''title'' = Some t0"
      and "map_of asset ''description'' = Some d0"
      and "map_of asset ''blobUrl'' = Some b0"
  shows "\<exists>asset'. merged_asset e (JObj d) asset = Inr asset'
           \<and> map_of asset' = (map_of asset)
                (''title'' \<mapsto> (case map_of d ''title'' of None \<Rightarrow> t0 | Some v \<Rightarrow> v),
                 ''description'' \<mapsto> (case map_of d ''description'' of None \<Rightarrow> d0 | Some v \<Rightarrow> v),
                 ''blobUrl'' \<mapsto> (case map_of d ''blobUrl'' of None \<Rightarrow> b0 | Some v \<Rightarrow> v),
                 ''updated_at'' \<mapsto> JStr (utcnow e))"
proof -
  obtain a1 where a1: "merge_field ''title'' (JObj d) asset = Inr a1"
    "map_of a1 = (map_of asset)(''title'' \<mapsto> (case map_of d ''title'' of None \<Rightarrow> t0 | Some v \<Rightarrow> v))"
    using merge_field_map [OF assms(1)] by blast
  have "map_of a1 ''description'' = Some d0" using a1(2) assms(2) by simp
  then obtain a2 where a2: "merge_field ''description'' (JObj d) a1 = Inr a2"
    "map_of a2 = (map_of a1)
       (''description'' \<mapsto> (case map_of d ''description'' of None \<Rightarrow> d0 | Some v \<Rightarrow> v))"
    using merge_field_map by blast
  have "map_of a2 ''blobUrl'' = Some b0" using a1(2) a2(2) assms(3) by simp
  then obtain a3 where a3: "merge_field ''blobUrl'' (JObj d) a2 = Inr a3"
    "map_of a3 = (map_of a2)(''blobUrl'' \<mapsto> (case map_of d ''blobUrl'' of None \<Rightarrow> b0 | Some v \<Rightarrow> v))"
    using merge_field_map by blast
  have "merged_asset e (JObj d) asset = Inr (AList.update ''updated_at'' (JStr (utcnow e)) a3)"
    using a1(1) a2(1) a3(1) by (simp add: merged_asset_def)
  moreover have "map_of (AList.update ''updated_at'' (JStr (utcnow e)) a3) = (map_of asset)
                (''title'' \<mapsto> (case map_of d ''title'' of None \<Rightarrow> t0 | Some v \<Rightarrow> v),
                 ''description'' \<mapsto> (case map_of d ''description'' of None \<Rightarrow> d0 | Some v \<Rightarrow> v),
                 ''blobUrl'' \<mapsto> (case map_of d ''blobUrl'' of None \<Rightarrow> b0 | Some v \<Rightarrow> v),
                 ''updated_at'' \<mapsto> JStr (utcnow e))"
    using a1(2) a2(2) a3(2) by (simp add: update_conv')
  ultimately show ?thesis by blast
qed

text \<open>
  C3. An update whose body is a JSON object, on a stored record that has its three
  mutable fields, the store not failing: each of \<open>title\<close>, \<open>description\<close>, \<open>blobUrl\<close> takes
  the body's value when the body has the key and keeps the stored value otherwise;
  \<open>updated_at\<close> becomes the text of the current UTC time; every other field, \<open>id\<close> and
  \<open>created_at\<close> among them, is as stored. The merged record replaces the stored one and is
  returned with HTTP 200.
\<close>

theorem update_asset_merges:
  assumes "json_body req = Some (JObj d)"
      and "map_of (items w) (route_id req) = Some asset"
      and "map_of asset ''title'' = Some t0"
      and "map_of asset ''description'' = Some d0"
      and "map_of asset ''blobUrl'' = Some b0"
      and "fault e (ReadItem (route_id req)) = None"
      and "\<forall>doc. fault e (ReplaceItem (route_id req) doc) = None"
  shows "\<exists>asset'.
           update_asset e req w =
             (Returns (response 200 (Json (JObj asset')) ''application/json''),
              w\<lparr>items := AList.update (route_id req) asset' (items w),
                calls := calls w @ [ReadItem (route_id req), ReplaceItem (route_id req) asset']\<rparr>)
         \<and> map_of asset' = (map_of asset)
              (''title'' \<mapsto> (case map_of d ''title'' of None \<Rightarrow> t0 | Some v \<Rightarrow> v),
               ''description'' \<mapsto> (case map_of d ''description'' of None \<Rightarrow> d0 | Some v \<Rightarrow> v),
               ''blobUrl'' \<mapsto> (case map_of d ''blobUrl'' of None \<Rightarrow> b0 | Some v \<Rightarrow> v),
               ''updated_at'' \<mapsto> JStr (utcnow e))
         \<and> map_of asset' ''id'' = map_of asset ''id''
         \<and> map_of asset' ''created_at'' = map_of asset ''created_at''"
proof -
  obtain asset' where m: "merged_asset e (JObj d) asset = Inr asset'"
    and mm: "map_of asset' = (map_of asset)
              (''title'' \<mapsto> (case map_of d ''title'' of None \<Rightarrow> t0 | Some v \<Rightarrow> v),
               ''description'' \<mapsto> (case map_of d ''description'' of None \<Rightarrow> d0 | Some v \<Rightarrow> v),
               ''blobUrl'' \<mapsto> (case map_of d ''blobUrl'' of None \<Rightarrow> b0 | Some v \<Rightarrow> v),
               ''updated_at'' \<mapsto> JStr (utcnow e))"
    using merged_asset_map [OF assms(3-5)] by blast
  have "update_asset e req w =
             (Returns (response 200 (Json (JObj asset')) ''application/json''),
              w\<lparr>items := AList.update (route_id req) asset' (items w),
                calls := calls w @ [ReadItem (route_id req), ReplaceItem (route_id req) asset']\<rparr>)"
    using assms(1,2,6,7) m
    by (simp add: update_asset_def get_json_def read_item_def replace_item_def record_call_def
        Let_def)
  moreover have "map_of asset' ''id'' = map_of asset ''id''" using mm by simp
  moreover have "map_of asset' ''created_at'' = map_of asset ''created_at''" using mm by simp
  ultimately show ?thesis using mm by blast
qed

theorem update_asset_merges_witness:
  "update_asset later_env
     (json_request ''0b7e'' (Some (JObj [(''title'', JStr ''Sunset''), (''id'', JStr ''mine'')])))
     photo_world =
   (Returns (response 200 (Json (JObj retitled_photo)) ''application/json''),
    photo_world\<lparr>items := [(''0b7e'', retitled_photo)],
                calls := [ReadItem ''0b7e'', ReplaceItem ''0b7e'' retitled_photo]\<rparr>)"
proof -
  let ?req =
    "json_request ''0b7e'' (Some (JObj [(''title'', JStr ''Sunset''), (''id'', JStr ''mine'')]))"
  have h1: "json_body ?req = Some (JObj [(''title'', JStr ''Sunset''), (''id'', JStr ''mine'')])"
    by (simp add: json_request_def)
  have h2: "map_of (items photo_world) (route_id ?req) = Some stored_photo"
    by (simp add: json_request_def photo_world_def)
  have h3: "map_of stored_photo ''title'' = Some (JStr ''Photo'')"
    and h4: "map_of stored_photo ''description'' = Some (JStr [])"
    and h5: "map_of stored_photo ''blobUrl'' = Some (JStr ''https://h/uploads/77aa.bin'')"
    by (simp_all add: stored_photo_def)
  have h6: "fault later_env (ReadItem (route_id ?req)) = None"
    and h7: "\<forall>doc. fault later_env (ReplaceItem (route_id ?req) doc) = None"
    by (simp_all add: later_env_def quiet_def)
  from update_asset_merges [OF h1 h2 h3 h4 h5 h6 h7]
  obtain asset' where "fst (update_asset later_env ?req photo_world) =
      Returns (response 200 (Json (JObj asset')) ''application/json'')"
    by auto
  then show ?thesis
    by (simp add: update_asset_def get_json_def read_item_def replace_item_def record_call_def
        merged_asset_def merge_field_def doc_getitem_def json_request_def photo_world_def
        stored_photo_def later_env_def quiet_def retitled_photo_def Let_def)
qed

text \<open>
  C7, as stated, fails: the body is parsed before the record is read, so an update of an
  id that names no record, with a body that is not valid JSON, ends in an escaping
  \<open>ValueError\<close> and not in HTTP 404.
\<close>

theorem update_missing_counterexample:
  "map_of (items empty_world) ''a1'' = None
   \<and> fst (update_asset demo_env (json_request ''a1'' None) empty_world) = Raises ValueError"
  by (simp add: update_asset_def get_json_def json_request_def not_found_or_raise_def
      empty_world_def)

text \<open>
  C7, amended. An update of an id that names no record never changes the Asset Store or
  the Blob Store and makes no store call but at most the read. When its body is valid JSON
  (and the read does not fail) it is answered with HTTP 404. When its body is not valid
  JSON, the \<open>ValueError\<close> escapes the handler, which returns no response and calls no store.
\<close>

theorem update_asset_missing:
  assumes "map_of (items w) (route_id req) = None"
  shows "items (snd (update_asset e req w)) = items w
       \<and> blobs (snd (update_asset e req w)) = blobs w
       \<and> (calls (snd (update_asset e req w)) = calls w
          \<or> calls (snd (update_asset e req w)) = calls w @ [ReadItem (route_id req)])
       \<and> (json_body req \<noteq> None \<and> fault e (ReadItem (route_id req)) = None \<longrightarrow>
            update_asset e req w =
              (Returns (response 404 (Text ''Asset not found'') ''text/plain''),
               w\<lparr>calls := calls w @ [ReadItem (route_id req)]\<rparr>))
       \<and> (json_body req = None \<longrightarrow> update_asset e req w = (Raises ValueError, w))"
  using assms
  by (auto simp: update_asset_def get_json_def read_item_def record_call_def Let_def
      not_found_or_raise_def split: option.splits)

theorem update_asset_missing_witness:
  "update_asset demo_env (json_request ''a1'' (Some (JObj [(''title'', JStr ''Sunset'')])))
     photo_world =
     (Returns (response 404 (Text ''Asset not found'') ''text/plain''),
      photo_world\<lparr>calls := [ReadItem ''a1'']\<rparr>)
   \<and> update_asset later_env (json_request ''a1'' None) photo_world =
     (Raises ValueError, photo_world)"
  using update_asset_missing
    [of photo_world "json_request ''a1'' (Some (JObj [(''title'', JStr ''Sunset'')]))" demo_env]
    update_asset_missing [of photo_world "json_request ''a1'' None" later_env]
  by (simp add: json_request_def photo_world_def demo_env_def quiet_def)

section \<open>Delete\<close>

text \<open>
  C2, as stated, fails: \<open>blobUrl\<close> is not validated, so an asset can be created whose URL
  names no blob, or whose \<open>blobUrl\<close> is not a string. Deleting the first reads the record
  and asks the Blob Store to delete the blob; that call raises, the error escapes the
  handler, and the record stays. Deleting the second reads the record and fails on
  \<^verbatim>\<open>split\<close> before any blob call; again no response is returned and the record stays.
\<close>

theorem delete_asset_counterexample:
  "fst (create_asset demo_env (json_request [] (Some (JObj photo_body))) empty_world) =
     Returns (response 201 (Json (JObj stored_photo)) ''application/json'')
   \<and> delete_asset later_env (json_request ''0b7e'' None)
       (snd (create_asset demo_env (json_request [] (Some (JObj photo_body))) empty_world)) =
     (Raises ResourceNotFoundError,
      \<lparr>items = [(''0b7e'', stored_photo)], blobs = [],
       calls = [CreateItem stored_photo, ReadItem ''0b7e'', DeleteBlob ''77aa.bin'']\<rparr>)
   \<and> fst (create_asset demo_env (json_request [] (Some (JObj numbered_body))) empty_world) =
     Returns (response 201 (Json (JObj stored_numbered)) ''application/json'')
   \<and> delete_asset later_env (json_request ''0b7e'' None)
       (snd (create_asset demo_env (json_request [] (Some (JObj numbered_body))) empty_world)) =
     (Raises AttributeError,
      \<lparr>items = [(''0b7e'', stored_numbered)], blobs = [],
       calls = [CreateItem stored_numbered, ReadItem ''0b7e'']\<rparr>)"
  by (simp add: create_asset_def get_json_def missing_required_def new_asset_def create_item_def
      record_call_def json_request_def photo_body_def empty_world_def demo_env_def quiet_def
      stored_photo_def delete_asset_def read_item_def doc_getitem_def delete_blob_def
      not_found_or_raise_def later_env_def Let_def numbered_body_def stored_numbered_def)

text \<open>
  C2, amended. When the id names a record whose \<open>blobUrl\<close> is a string, the final path
  segment of that string names a blob in the Blob Store, and no store call fails, delete
  makes exactly these calls in this order: it reads the record, deletes the blob named by
  the final path segment of \<open>blobUrl\<close> (the part after the last slash, or the whole
  string when it has none), deletes the record; it answers HTTP 204 with an empty body.
  When the id names no record (and the read does not fail) it answers HTTP 404 and
  changes neither store.
\<close>

theorem delete_asset_steps:
  "(map_of (items w) (route_id req) = Some asset
      \<and> map_of asset ''blobUrl'' = Some (JStr url)
      \<and> name = last (split CHR ''/'' url)
      \<and> map_of (blobs w) name \<noteq> None
      \<and> fault e (ReadItem (route_id req)) = None
      \<and> fault e (DeleteBlob name) = None
      \<and> fault e (DeleteItem (route_id req)) = None
    \<longrightarrow> delete_asset e req w =
          (Returns (response 204 Empty ''text/plain''),
           w\<lparr>items := AList.delete (route_id req) (items w),
             blobs := AList.delete name (blobs w),
             calls := calls w @ [ReadItem (route_id req), DeleteBlob name,
                                 DeleteItem (route_id req)]\<rparr>)
        \<and> CHR ''/'' \<notin> set name
        \<and> (url = name \<or> (\<exists>a. url = a @ CHR ''/'' # name)))
   \<and> (map_of (items w) (route_id req) = None \<and> fault e (ReadItem (route_id req)) = None
    \<longrightarrow> delete_asset e req w =
          (Returns (response 404 (Text ''Asset not found'') ''text/plain''),
           w\<lparr>calls := calls w @ [ReadItem (route_id req)]\<rparr>))"
proof (intro conjI impI)
  assume a: "map_of (items w) (route_id req) = Some asset
      \<and> map_of asset ''blobUrl'' = Some (JStr url)
      \<and> name = last (split CHR ''/'' url)
      \<and> map_of (blobs w) name \<noteq> None
      \<and> fault e (ReadItem (route_id req)) = None
      \<and> fault e (DeleteBlob name) = None
      \<and> fault e (DeleteItem (route_id req)) = None"
  then show "delete_asset e req w =
          (Returns (response 204 Empty ''text/plain''),
           w\<lparr>items := AList.delete (route_id req) (items w),
             blobs := AList.delete name (blobs w),
             calls := calls w @ [ReadItem (route_id req), DeleteBlob name,
                                 DeleteItem (route_id req)]\<rparr>)"
    by (auto simp: delete_asset_def read_item_def doc_getitem_def delete_blob_def delete_item_def
        record_call_def Let_def)
  from a show "CHR ''/'' \<notin> set name"
    using last_split_final_segment [of "CHR ''/''" url] by simp
  from a show "url = name \<or> (\<exists>a. url = a @ CHR ''/'' # name)"
    using last_split_final_segment [of "CHR ''/''" url] by auto
next
  assume "map_of (items w) (route_id req) = None \<and> fault e (ReadItem (route_id req)) = None"
  then show "delete_asset e req w =
          (Returns (response 404 (Text ''Asset not found'') ''text/plain''),
           w\<lparr>calls := calls w @ [ReadItem (route_id req)]\<rparr>)"
    by (simp add: delete_asset_def read_item_def record_call_def not_found_or_raise_def Let_def)
qed

theorem delete_asset_steps_witness:
  "delete_asset later_env (json_request ''0b7e'' None) photo_world =
     (Returns (response 204 Empty ''text/plain''),
      \<lparr>items = [], blobs = [],
       calls = [ReadItem ''0b7e'', DeleteBlob ''77aa.bin'', DeleteItem ''0b7e'']\<rparr>)
   \<and> delete_asset later_env (json_request ''a1'' None) photo_world =
     (Returns (response 404 (Text ''Asset not found'') ''text/plain''),
      photo_world\<lparr>calls := [ReadItem ''a1'']\<rparr>)"
  using delete_asset_steps
      [of photo_world "json_request ''0b7e'' None" stored_photo "''https://h/uploads/77aa.bin''"
          "''77aa.bin''" later_env]
    delete_asset_steps
      [of photo_world "json_request ''a1'' None" stored_photo "''https://h/uploads/77aa.bin''"
          "''77aa.bin''" later_env]
  by (simp add: json_request_def photo_world_def stored_photo_def later_env_def quiet_def)

lemma delete_blob_error:
  "fst (delete_blob e name w) = Inl x \<Longrightarrow>
     x \<noteq> CosmosResourceNotFoundError
     \<and> snd (delete_blob e name w) = record_call (DeleteBlob name) w"
  by (auto simp: delete_blob_def Let_def split: option.splits if_splits)

text \<open>
  C10. When the id names a record (with a string \<open>blobUrl\<close>) and the Blob Store's deletion
  raises an error, that same error escapes the handler, so no HTTP status is produced by
  it; the Asset Store and the Blob Store are as before, and the calls made are the read
  and the blob deletion only: the record's deletion is not attempted.
\<close>

theorem delete_asset_blob_failure:
  assumes "map_of (items w) (route_id req) = Some asset"
      and "map_of asset ''blobUrl'' = Some (JStr url)"
      and "fault e (ReadItem (route_id req)) = None"
      and "fst (delete_blob e (last (split CHR ''/'' url))
                  (record_call (ReadItem (route_id req)) w)) = Inl x"
  shows "delete_asset e req w =
           (Raises x,
            w\<lparr>calls := calls w @ [ReadItem (route_id req),
                                  DeleteBlob (last (split CHR ''/'' url))]\<rparr>)"
proof -
  let ?w1 = "record_call (ReadItem (route_id req)) w"
  let ?n = "last (split CHR ''/'' url)"
  obtain r w2 where d: "delete_blob e ?n ?w1 = (r, w2)" by (cases "delete_blob e ?n ?w1")
  with assms(4) have r: "r = Inl x" by simp
  from delete_blob_error [OF assms(4)] d
  have x: "x \<noteq> CosmosResourceNotFoundError" and w2: "w2 = record_call (DeleteBlob ?n) ?w1"
    by simp_all
  have "delete_asset e req w = (Raises x, w2)"
    using assms(1-3) d r x
    by (simp add: delete_asset_def read_item_def doc_getitem_def not_found_or_raise_def Let_def)
  then show ?thesis using w2 by (simp add: record_call_def)
qed

theorem delete_asset_blob_failure_witness:
  "delete_asset outage_env (json_request ''0b7e'' None) photo_world =
     (Raises (StoreFailure ''timeout''),
      photo_world\<lparr>calls := [ReadItem ''0b7e'', DeleteBlob ''77aa.bin'']\<rparr>)"
proof -
  let ?req = "json_request ''0b7e'' None"
  have h1: "map_of (items photo_world) (route_id ?req) = Some stored_photo"
    by (simp add: json_request_def photo_world_def)
  have h2: "map_of stored_photo ''blobUrl'' = Some (JStr ''https://h/uploads/77aa.bin'')"
    by (simp add: stored_photo_def)
  have h3: "fault outage_env (ReadItem (route_id ?req)) = None"
    by (simp add: outage_env_def blob_outage_def)
  have h4: "fst (delete_blob outage_env (last (split CHR ''/'' ''https://h/uploads/77aa.bin''))
                  (record_call (ReadItem (route_id ?req)) photo_world)) =
            Inl (StoreFailure ''timeout'')"
    by (simp add: delete_blob_def outage_env_def blob_outage_def)
  from delete_asset_blob_failure [OF h1 h2 h3 h4]
  show ?thesis
    by (simp add: json_request_def photo_world_def)
qed

end
